theory Spec2Isabelle
  imports Main
begin

section \<open>Live-session server actions: data model\<close>

text \<open>
  The four server actions \<open>createMeetingRoom\<close>, \<open>getMeetingRoom\<close>,
  \<open>updateSessionStatus\<close> and \<open>generateAgoraToken\<close> run against an ambient server
  context: the Prisma table \<open>liveSession\<close>, the authenticated session of the request,
  the process environment and the system clock. The context is made explicit as the
  record \<open>server\<close>; every action takes it and returns its outcome together with the
  context it leaves behind, so that what an action reads and writes can be stated.
\<close>

text \<open>
  Modelled from the spec: the Prisma schema declaring the column \<open>LiveSession.status\<close>
  is missing from the sources; the spec's data model gives it the three values below.
\<close>

datatype session_status = Scheduled | In_progress | Completed

text \<open>
  The parameter type \<^verbatim>\<open>status: "in_progress" | "completed"\<close> of \<open>updateSessionStatus\<close>.
\<close>

datatype status_target = T_in_progress | T_completed

text \<open>
  A row of \<open>liveSession\<close> with the relations the actions include
  (\<open>teacher.userId\<close>, \<open>teacher.user.name\<close>, \<open>student?.name\<close>), restricted to the
  fields the actions read or write. Times are milliseconds since the epoch.
  \<open>studentId\<close>, \<open>student?.name\<close> and \<open>title\<close> may be null.
\<close>

record liveSession =
  ls_id :: string
  teacherId :: string
  teacher_userId :: string
  teacher_user_name :: string
  studentId :: "string option"
  student_name :: "string option"
  title :: "string option"
  scheduledAt :: int
  duration :: int
  status :: session_status
  actualStartTime :: "int option"
  actualEndTime :: "int option"

record env =
  NEXT_PUBLIC_AGORA_APP_ID :: "string option"
  AGORA_APP_CERTIFICATE :: "string option"

text \<open>
  \<open>auth_user_id\<close> is \<^verbatim>\<open>session?.user?.id\<close> of \<^verbatim>\<open>auth.api.getSession\<close> (\<open>None\<close> when any
  link of the chain is undefined); \<open>date_now\<close> is what \<^verbatim>\<open>Date.now()\<close> and
  \<^verbatim>\<open>new Date()\<close> read during the call.
\<close>

record server =
  prisma_liveSession :: "string \<rightharpoonup> liveSession"
  auth_user_id :: "string option"
  process_env :: env
  date_now :: int

text \<open>
  Every way an action leaves without returning: \<^verbatim>\<open>redirect("/sign-in")\<close> (which throws
  in Next.js) and the four \<^verbatim>\<open>throw new Error(...)\<close> of the module. The constructors carry
  the names of the spec's error taxonomy; \<open>message\<close> gives the text the code throws.
\<close>

datatype error =
  Redirect_sign_in
| NotFound
| Forbidden
| ConfigurationError
| InitializationError

fun message :: "error \<Rightarrow> string" where
  "message Redirect_sign_in = ''/sign-in''"
| "message NotFound = ''Session not found''"
| "message Forbidden = ''Unauthorized to access this session''"
| "message ConfigurationError = ''Video service configuration error''"
| "message InitializationError = ''Failed to initialize video session''"

subsection \<open>Numbers in template literals\<close>

text \<open>
  \<^verbatim>\<open>`${Date.now()}`\<close> renders an integer in decimal, with a leading minus sign when
  it is negative.
\<close>

definition digit_char :: "nat \<Rightarrow> char" where
  "digit_char d = ''0123456789'' ! d"

fun digits_of_nat :: "nat \<Rightarrow> string" where
  "digits_of_nat n =
     (if n < 10 then [digit_char n]
      else digits_of_nat (n div 10) @ [digit_char (n mod 10)])"

declare digits_of_nat.simps [simp del]

definition number_toString :: "int \<Rightarrow> string" where
  "number_toString i =
     (if i < 0 then CHR ''-'' # digits_of_nat (nat (- i)) else digits_of_nat (nat i))"

section \<open>The server actions\<close>

subsection \<open>createMeetingRoom\<close>

record meetingData =
  md_roomId :: string
  md_sessionId :: string
  md_teacherId :: string
  md_studentId :: "string option"
  md_scheduledStart :: int
  md_provider :: string
  md_status :: string

text \<open>
  The \<^verbatim>\<open>prisma.liveSession.update\<close> of this action has an empty \<^verbatim>\<open>data\<close> object (both
  fields are commented out), so it writes the row back as it was read.
\<close>

definition createMeetingRoom :: "server \<Rightarrow> string \<Rightarrow> (error + meetingData) \<times> server" where
  "createMeetingRoom s sessionId =
     (case auth_user_id s of
        None \<Rightarrow> (Inl Redirect_sign_in, s)
      | Some uid \<Rightarrow>
          if uid = [] then (Inl Redirect_sign_in, s)
          else
            (case prisma_liveSession s sessionId of
               None \<Rightarrow> (Inl NotFound, s)
             | Some liveSession \<Rightarrow>
                 let isTeacher = (teacher_userId liveSession = uid);
                     isStudent = (studentId liveSession = Some uid)
                 in if \<not> isTeacher \<and> \<not> isStudent then (Inl Forbidden, s)
                    else
                      let meetingRoomId =
                            ''room_'' @ sessionId @ ''_'' @ number_toString (date_now s)
                      in (Inr \<lparr>md_roomId = meetingRoomId,
                                md_sessionId = sessionId,
                                md_teacherId = teacherId liveSession,
                                md_studentId = studentId liveSession,
                                md_scheduledStart = scheduledAt liveSession,
                                md_provider = ''agora'',
                                md_status = ''scheduled''\<rparr>,
                          s\<lparr>prisma_liveSession :=
                              (prisma_liveSession s)(sessionId \<mapsto> liveSession)\<rparr>)))"

subsection \<open>getMeetingRoom\<close>

record roomInfo =
  ri_sessionId :: string
  ri_roomId :: string
  ri_isTeacher :: bool
  ri_isStudent :: bool
  ri_teacherName :: string
  ri_studentName :: string
  ri_sessionTitle :: string
  ri_scheduledTime :: int
  ri_duration :: int
  ri_status :: session_status

text \<open>\<^verbatim>\<open>x || d\<close> on a nullable string: the default replaces null and the empty string.\<close>

definition or_default :: "string option \<Rightarrow> string \<Rightarrow> string" where
  "or_default x d = (case x of None \<Rightarrow> d | Some v \<Rightarrow> if v = [] then d else v)"

definition getMeetingRoom :: "server \<Rightarrow> string \<Rightarrow> (error + roomInfo) \<times> server" where
  "getMeetingRoom s sessionId =
     (case auth_user_id s of
        None \<Rightarrow> (Inl Redirect_sign_in, s)
      | Some uid \<Rightarrow>
          if uid = [] then (Inl Redirect_sign_in, s)
          else
            (case prisma_liveSession s sessionId of
               None \<Rightarrow> (Inl NotFound, s)
             | Some liveSession \<Rightarrow>
                 let isTeacher = (teacher_userId liveSession = uid);
                     isStudent = (studentId liveSession = Some uid)
                 in if \<not> isTeacher \<and> \<not> isStudent then (Inl Forbidden, s)
                    else
                      (Inr \<lparr>ri_sessionId = ls_id liveSession,
                             ri_roomId = ''room_'' @ sessionId,
                             ri_isTeacher = isTeacher,
                             ri_isStudent = isStudent,
                             ri_teacherName = teacher_user_name liveSession,
                             ri_studentName = or_default (student_name liveSession) ''Student'',
                             ri_sessionTitle = or_default (title liveSession) ''Live Session'',
                             ri_scheduledTime = scheduledAt liveSession,
                             ri_duration = duration liveSession,
                             ri_status = status liveSession\<rparr>,
                       s)))"

subsection \<open>updateSessionStatus\<close>

record updateResult =
  success :: bool

text \<open>
  The \<^verbatim>\<open>data\<close> object of the update: \<^verbatim>\<open>status\<close> always, \<^verbatim>\<open>actualStartTime: new Date()\<close>
  when the target is \<^verbatim>\<open>"in_progress"\<close>, \<^verbatim>\<open>actualEndTime: new Date()\<close> when it is
  \<^verbatim>\<open>"completed"\<close>. The current status of the row is not consulted. The call
  \<^verbatim>\<open>revalidatePath("/dashboard/sessions")\<close> that follows only drops a page cache and is
  left out.
\<close>

definition updateSessionStatus ::
  "server \<Rightarrow> string \<Rightarrow> status_target \<Rightarrow> (error + updateResult) \<times> server" where
  "updateSessionStatus s sessionId target =
     (case auth_user_id s of
        None \<Rightarrow> (Inl Redirect_sign_in, s)
      | Some uid \<Rightarrow>
          if uid = [] then (Inl Redirect_sign_in, s)
          else
            (case prisma_liveSession s sessionId of
               None \<Rightarrow> (Inl NotFound, s)
             | Some liveSession \<Rightarrow>
                 let isTeacher = (teacher_userId liveSession = uid);
                     isStudent = (studentId liveSession = Some uid)
                 in if \<not> isTeacher \<and> \<not> isStudent then (Inl Forbidden, s)
                    else
                      (Inr \<lparr>success = True\<rparr>,
                       s\<lparr>prisma_liveSession :=
                           (prisma_liveSession s)(sessionId \<mapsto>
                              (case target of
                                 T_in_progress \<Rightarrow>
                                   liveSession\<lparr>status := In_progress,
                                               actualStartTime := Some (date_now s)\<rparr>
                               | T_completed \<Rightarrow>
                                   liveSession\<lparr>status := Completed,
                                               actualEndTime := Some (date_now s)\<rparr>))\<rparr>)))"

subsection \<open>generateAgoraToken\<close>

text \<open>
  The package \<^verbatim>\<open>agora-access-token\<close> is a third-party dependency and is taken as a parameter:
  \<open>buildTokenWithAccount appId appCertificate channelName account role privilegeExpiredTs\<close>
  is the signed token, or \<open>None\<close> when the dynamic import or the builder throws (the
  \<^verbatim>\<open>catch\<close> branch of the action).
\<close>

datatype RtcRole = PUBLISHER | SUBSCRIBER

type_synonym RtcTokenBuilder =
  "string \<Rightarrow> string \<Rightarrow> string \<Rightarrow> string \<Rightarrow> RtcRole \<Rightarrow> int \<Rightarrow> string option"

record agoraToken =
  at_token :: string
  at_channelName :: string
  at_userId :: string
  at_appId :: string

text \<open>\<^verbatim>\<open>!x\<close> on an environment variable: unset or the empty string.\<close>

definition falsy :: "string option \<Rightarrow> bool" where
  "falsy x = (case x of None \<Rightarrow> True | Some v \<Rightarrow> v = [])"

definition generateAgoraToken ::
  "RtcTokenBuilder \<Rightarrow> server \<Rightarrow> string \<Rightarrow> string \<Rightarrow> (error + agoraToken) \<times> server" where
  "generateAgoraToken buildTokenWithAccount s channelName userId =
     (let appId = NEXT_PUBLIC_AGORA_APP_ID (process_env s);
          appCertificate = AGORA_APP_CERTIFICATE (process_env s)
      in if falsy appId \<or> falsy appCertificate then (Inl ConfigurationError, s)
         else
           let role = PUBLISHER;
               expirationTimeInSeconds = 3600;
               currentTimestamp = date_now s div 1000;
               privilegeExpiredTs = currentTimestamp + expirationTimeInSeconds
           in (case buildTokenWithAccount (the appId) (the appCertificate) channelName userId
                      role privilegeExpiredTs of
                 None \<Rightarrow> (Inl InitializationError, s)
               | Some token \<Rightarrow>
                   (Inr \<lparr>at_token = token,
                          at_channelName = channelName,
                          at_userId = userId,
                          at_appId = the appId\<rparr>,
                    s)))"

section \<open>Requests in sequence\<close>

text \<open>
  Each request brings its own authenticated user and reads its own clock; the table
  \<open>liveSession\<close> and the environment are what the previous request left.
\<close>

definition request_ctx :: "server \<Rightarrow> string option \<Rightarrow> int \<Rightarrow> server" where
  "request_ctx s caller now = s\<lparr>auth_user_id := caller, date_now := now\<rparr>"

record request =
  rq_caller :: "string option"
  rq_now :: int
  rq_sessionId :: string
  rq_target :: status_target

fun updateSessionStatus_seq :: "request list \<Rightarrow> server \<Rightarrow> server" where
  "updateSessionStatus_seq [] s = s"
| "updateSessionStatus_seq (r # rs) s =
     updateSessionStatus_seq rs
       (snd (updateSessionStatus (request_ctx s (rq_caller r) (rq_now r))
               (rq_sessionId r) (rq_target r)))"

text \<open>The status a target writes.\<close>

fun status_of_target :: "status_target \<Rightarrow> session_status" where
  "status_of_target T_in_progress = In_progress"
| "status_of_target T_completed = Completed"

text \<open>The caller is the teacher's user or the student of the row: the test of all three guards.\<close>

definition is_party :: "string \<Rightarrow> liveSession \<Rightarrow> bool" where
  "is_party uid liveSession =
     (teacher_userId liveSession = uid \<or> studentId liveSession = Some uid)"

subsection \<open>The scenario of the specification\<close>

text \<open>
  Session \<open>S1\<close> with tutor \<open>T\<close> and learner \<open>L\<close>, in status \<open>scheduled\<close>, on a server
  whose signing configuration is present; \<open>X\<close> is a third user.
\<close>

definition session_S1 :: liveSession where
  "session_S1 =
     \<lparr>ls_id = ''S1'', teacherId = ''teacher-profile-1'', teacher_userId = ''T'',
      teacher_user_name = ''Tutor'', studentId = Some ''L'', student_name = Some ''Learner'',
      title = Some ''Algebra'', scheduledAt = 1700000000000, duration = 60,
      status = Scheduled, actualStartTime = None, actualEndTime = None\<rparr>"

definition server_S1 :: "liveSession \<Rightarrow> string option \<Rightarrow> int \<Rightarrow> server" where
  "server_S1 row caller now =
     \<lparr>prisma_liveSession = [''S1'' \<mapsto> row],
      auth_user_id = caller,
      process_env = \<lparr>NEXT_PUBLIC_AGORA_APP_ID = Some ''app'',
                      AGORA_APP_CERTIFICATE = Some ''cert''\<rparr>,
      date_now = now\<rparr>"

text \<open>A stand-in signer that writes its arguments into the token, expiry last.\<close>

definition plain_builder :: RtcTokenBuilder where
  "plain_builder appId appCertificate channelName account role privilegeExpiredTs =
     Some (appId @ ''/'' @ channelName @ ''/'' @ account @ ''/'' @
           number_toString privilegeExpiredTs)"

text \<open>A signer that always throws (for instance, the package is not installed).\<close>

definition failing_builder :: RtcTokenBuilder where
  "failing_builder appId appCertificate channelName account role privilegeExpiredTs = None"

text \<open>What \<open>getMeetingRoom\<close> returns for \<open>S1\<close> in the scenario, up to the caller's flags.\<close>

definition roomInfo_S1 :: "bool \<Rightarrow> bool \<Rightarrow> roomInfo" where
  "roomInfo_S1 isTeacher isStudent =
     \<lparr>ri_sessionId = ''S1'', ri_roomId = ''room_S1'', ri_isTeacher = isTeacher,
      ri_isStudent = isStudent, ri_teacherName = ''Tutor'', ri_studentName = ''Learner'',
      ri_sessionTitle = ''Algebra'', ri_scheduledTime = 1700000000000, ri_duration = 60,
      ri_status = Scheduled\<rparr>"

text \<open>What \<open>createMeetingRoom\<close> returns for \<open>S1\<close> in the scenario, up to the room id.\<close>

definition meetingData_S1 :: "string \<Rightarrow> meetingData" where
  "meetingData_S1 roomId =
     \<lparr>md_roomId = roomId, md_sessionId = ''S1'', md_teacherId = ''teacher-profile-1'',
      md_studentId = Some ''L'', md_scheduledStart = 1700000000000, md_provider = ''agora'',
      md_status = ''scheduled''\<rparr>"

text \<open>\<open>S1\<close> after a call that ran from time 10 to time 20.\<close>

definition session_S1_completed :: liveSession where
  "session_S1_completed =
     session_S1\<lparr>status := Completed, actualStartTime := Some 10, actualEndTime := Some 20\<rparr>"

text \<open>A join and an end of \<open>S1\<close> by a user at a time.\<close>

definition join_S1 :: "string \<Rightarrow> int \<Rightarrow> request" where
  "join_S1 uid now =
     \<lparr>rq_caller = Some uid, rq_now = now, rq_sessionId = ''S1'', rq_target = T_in_progress\<rparr>"

definition end_S1 :: "string \<Rightarrow> int \<Rightarrow> request" where
  "end_S1 uid now =
     \<lparr>rq_caller = Some uid, rq_now = now, rq_sessionId = ''S1'', rq_target = T_completed\<rparr>"

section \<open>Decimal rendering is injective\<close>

lemma digit_char_inj: "a < 10 \<Longrightarrow> b < 10 \<Longrightarrow> digit_char a = digit_char b \<Longrightarrow> a = b"
proof -
  assume a: "a < 10" and b: "b < 10" and e: "digit_char a = digit_char b"
  have d: "distinct ''0123456789''" by simp
  have "a < length ''0123456789''" "b < length ''0123456789''" using a b by simp_all
  with d e show "a = b" unfolding digit_char_def by (simp only: nth_eq_iff_index_eq)
qed

lemma digit_char_not_minus: "d < 10 \<Longrightarrow> digit_char d \<noteq> CHR ''-''"
proof -
  assume "d < 10"
  then have "digit_char d \<in> set ''0123456789''"
    unfolding digit_char_def by (intro nth_mem) simp
  then show ?thesis by auto
qed

lemma digits_of_nat_nonempty: "digits_of_nat n \<noteq> []"
  by (subst digits_of_nat.simps) simp

lemma digits_of_nat_hd: "hd (digits_of_nat n) \<noteq> CHR ''-''"
proof (induction n rule: digits_of_nat.induct)
  case (1 n)
  show ?case
  proof (cases "n < 10")
    case True
    then show ?thesis by (subst digits_of_nat.simps) (simp add: digit_char_not_minus)
  next
    case False
    with 1 show ?thesis
      by (subst digits_of_nat.simps) (simp add: digits_of_nat_nonempty)
  qed
qed

lemma digits_of_nat_inj: "digits_of_nat n = digits_of_nat m \<Longrightarrow> n = m"
proof (induction n arbitrary: m rule: digits_of_nat.induct)
  case (1 n)
  show ?case
  proof (cases "n < 10")
    case n: True
    show ?thesis
    proof (cases "m < 10")
      case True
      with n 1(2) have "digit_char n = digit_char m"
        by (subst (asm) (2) digits_of_nat.simps, subst (asm) digits_of_nat.simps) simp
      with n True show ?thesis by (rule digit_char_inj)
    next
      case False
      with n 1(2) have "[digit_char n] = digits_of_nat (m div 10) @ [digit_char (m mod 10)]"
        by (subst (asm) (2) digits_of_nat.simps, subst (asm) digits_of_nat.simps) simp
      then show ?thesis
        by (simp add: digits_of_nat_nonempty digits_of_nat_nonempty [THEN not_sym])
    qed
  next
    case n: False
    show ?thesis
    proof (cases "m < 10")
      case True
      with n 1(2) have "digits_of_nat (n div 10) @ [digit_char (n mod 10)] = [digit_char m]"
        by (subst (asm) (2) digits_of_nat.simps, subst (asm) digits_of_nat.simps) simp
      then show ?thesis
        by (simp add: digits_of_nat_nonempty digits_of_nat_nonempty [THEN not_sym])
    next
      case False
      with n 1(2) have e: "digits_of_nat (n div 10) @ [digit_char (n mod 10)]
          = digits_of_nat (m div 10) @ [digit_char (m mod 10)]"
        by (subst (asm) (2) digits_of_nat.simps, subst (asm) digits_of_nat.simps) simp
      then have "digits_of_nat (n div 10) = digits_of_nat (m div 10)"
        and c: "digit_char (n mod 10) = digit_char (m mod 10)" by simp_all
      with 1(1)[OF n] have "n div 10 = m div 10" by blast
      moreover from c have "n mod 10 = m mod 10" by (intro digit_char_inj) simp_all
      ultimately show ?thesis by (metis div_mult_mod_eq)
    qed
  qed
qed

lemma number_toString_inj: "number_toString i = number_toString j \<Longrightarrow> i = j"
proof -
  assume e: "number_toString i = number_toString j"
  have hd_neq: "CHR ''-'' # ds \<noteq> digits_of_nat n" for n ds
    using digits_of_nat_hd [of n] by (metis list.sel(1))
  have hd_neq': "digits_of_nat n \<noteq> CHR ''-'' # ds" for n ds
    using hd_neq [of ds n] by simp
  show "i = j"
  proof (cases "i < 0"; cases "j < 0")
    assume "i < 0" "j < 0"
    with e have "nat (- i) = nat (- j)" by (simp add: number_toString_def digits_of_nat_inj)
    with \<open>i < 0\<close> \<open>j < 0\<close> show ?thesis by simp
  next
    assume "i < 0" "\<not> j < 0"
    with e hd_neq show ?thesis by (simp add: number_toString_def)
  next
    assume "\<not> i < 0" "j < 0"
    with e hd_neq' show ?thesis by (simp add: number_toString_def)
  next
    assume "\<not> i < 0" "\<not> j < 0"
    with e have "nat i = nat j" by (simp add: number_toString_def digits_of_nat_inj)
    with \<open>\<not> i < 0\<close> \<open>\<not> j < 0\<close> show ?thesis by simp
  qed
qed

section \<open>What the guards and the update do\<close>

lemma getMeetingRoom_success:
  assumes "fst (getMeetingRoom s sessionId) = Inr r"
  obtains uid liveSession where
    "auth_user_id s = Some uid" "uid \<noteq> []"
    "prisma_liveSession s sessionId = Some liveSession"
    "is_party uid liveSession"
    "ri_isTeacher r = (teacher_userId liveSession = uid)"
    "ri_isStudent r = (studentId liveSession = Some uid)"
    "ri_roomId r = ''room_'' @ sessionId"
  using assms
  by (auto simp: getMeetingRoom_def is_party_def Let_def split: option.splits if_splits)

lemma createMeetingRoom_success:
  assumes "fst (createMeetingRoom s sessionId) = Inr m"
  obtains uid liveSession where
    "auth_user_id s = Some uid" "uid \<noteq> []"
    "prisma_liveSession s sessionId = Some liveSession"
    "is_party uid liveSession"
    "md_roomId m = ''room_'' @ sessionId @ ''_'' @ number_toString (date_now s)"
  using assms
  by (auto simp: createMeetingRoom_def is_party_def Let_def split: option.splits if_splits)

lemma updateSessionStatus_party:
  assumes "auth_user_id s = Some uid" "uid \<noteq> []"
    and "prisma_liveSession s sessionId = Some liveSession"
    and "is_party uid liveSession"
  shows "updateSessionStatus s sessionId target =
     (Inr \<lparr>success = True\<rparr>,
      s\<lparr>prisma_liveSession := (prisma_liveSession s)(sessionId \<mapsto>
          (case target of
             T_in_progress \<Rightarrow>
               liveSession\<lparr>status := In_progress, actualStartTime := Some (date_now s)\<rparr>
           | T_completed \<Rightarrow>
               liveSession\<lparr>status := Completed, actualEndTime := Some (date_now s)\<rparr>))\<rparr>)"
  using assms by (auto simp: updateSessionStatus_def is_party_def Let_def)

lemma updateSessionStatus_failure:
  assumes "fst (updateSessionStatus s sessionId target) = Inl e"
  shows "snd (updateSessionStatus s sessionId target) = s"
  using assms
  by (auto simp: updateSessionStatus_def Let_def split: option.splits if_splits)

lemma guard_rejects:
  assumes "auth_user_id s = Some uid" "uid \<noteq> []"
    and "\<forall>liveSession. prisma_liveSession s sessionId = Some liveSession \<longrightarrow>
           \<not> is_party uid liveSession"
  shows "updateSessionStatus s sessionId target =
           (Inl (if prisma_liveSession s sessionId = None then NotFound else Forbidden), s)"
    and "getMeetingRoom s sessionId =
           (Inl (if prisma_liveSession s sessionId = None then NotFound else Forbidden), s)"
    and "createMeetingRoom s sessionId =
           (Inl (if prisma_liveSession s sessionId = None then NotFound else Forbidden), s)"
  using assms
  by (auto simp: updateSessionStatus_def getMeetingRoom_def createMeetingRoom_def is_party_def
      Let_def split: option.splits)

lemma request_ctx_simps:
  "prisma_liveSession (request_ctx s caller now) = prisma_liveSession s"
  "auth_user_id (request_ctx s caller now) = caller"
  "date_now (request_ctx s caller now) = now"
  "process_env (request_ctx s caller now) = process_env s"
  by (simp_all add: request_ctx_def)

lemma updateSessionStatus_status:
  "map_option status (prisma_liveSession (snd (updateSessionStatus s sessionId target)) k) =
     (if k = sessionId \<and> (\<exists>r. fst (updateSessionStatus s sessionId target) = Inr r)
      then Some (status_of_target target)
      else map_option status (prisma_liveSession s k))"
  by (cases target)
     (auto simp: updateSessionStatus_def Let_def split: option.splits)

lemma updateSessionStatus_request:
  assumes "prisma_liveSession s sessionId = Some liveSession"
    and "uid \<noteq> []" and "is_party uid liveSession"
  shows "fst (updateSessionStatus (request_ctx s (Some uid) t) sessionId target) =
           Inr \<lparr>success = True\<rparr>"
    and "prisma_liveSession
           (snd (updateSessionStatus (request_ctx s (Some uid) t) sessionId target)) sessionId =
         Some (case target of
                 T_in_progress \<Rightarrow>
                   liveSession\<lparr>status := In_progress, actualStartTime := Some t\<rparr>
               | T_completed \<Rightarrow>
                   liveSession\<lparr>status := Completed, actualEndTime := Some t\<rparr>)"
  using updateSessionStatus_party [of "request_ctx s (Some uid) t" uid sessionId liveSession target]
    assms
  by (cases target; simp add: request_ctx_simps)+

lemma updateSessionStatus_seq_status:
  assumes "map_option status (prisma_liveSession s sessionId) \<in> {Some In_progress, Some Completed}"
  shows "map_option status (prisma_liveSession (updateSessionStatus_seq rs s) sessionId)
           \<in> {Some In_progress, Some Completed}"
  using assms
proof (induction rs arbitrary: s)
  case Nil
  then show ?case by simp
next
  case (Cons r rs)
  let ?s' = "snd (updateSessionStatus (request_ctx s (rq_caller r) (rq_now r))
               (rq_sessionId r) (rq_target r))"
  have "map_option status (prisma_liveSession ?s' sessionId)
          \<in> {Some In_progress, Some Completed}"
    using Cons.prems
    by (cases "rq_target r")
       (auto simp: updateSessionStatus_status request_ctx_simps simp del: map_option_eq_Some)
  from Cons.IH [OF this] show ?case by simp
qed

subsection \<open>What the credential issuer reads\<close>

lemma generateAgoraToken_server: "snd (generateAgoraToken b s channelName userId) = s"
  by (simp add: generateAgoraToken_def Let_def split: option.splits)

lemma generateAgoraToken_configured:
  assumes "NEXT_PUBLIC_AGORA_APP_ID (process_env s) = Some appId" and "appId \<noteq> []"
    and "AGORA_APP_CERTIFICATE (process_env s) = Some appCertificate" and "appCertificate \<noteq> []"
  shows "fst (generateAgoraToken b s channelName userId) =
     (case b appId appCertificate channelName userId PUBLISHER (date_now s div 1000 + 3600) of
        None \<Rightarrow> Inl InitializationError
      | Some token \<Rightarrow>
          Inr \<lparr>at_token = token, at_channelName = channelName, at_userId = userId,
               at_appId = appId\<rparr>)"
  using assms by (simp add: generateAgoraToken_def falsy_def Let_def split: option.splits)

lemma generateAgoraToken_unconfigured:
  assumes "falsy (NEXT_PUBLIC_AGORA_APP_ID (process_env s))
         \<or> falsy (AGORA_APP_CERTIFICATE (process_env s))"
  shows "generateAgoraToken b s channelName userId = (Inl ConfigurationError, s)"
  using assms by (auto simp: generateAgoraToken_def Let_def)

lemma generateAgoraToken_ConfigurationError:
  "(fst (generateAgoraToken b s channelName userId) = Inl ConfigurationError) =
     (falsy (NEXT_PUBLIC_AGORA_APP_ID (process_env s))
      \<or> falsy (AGORA_APP_CERTIFICATE (process_env s)))"
  by (auto simp: generateAgoraToken_def Let_def split: option.splits)

lemma generateAgoraToken_reads:
  assumes "process_env s1 = process_env s2" and "date_now s1 = date_now s2"
  shows "fst (generateAgoraToken b s1 channelName userId) =
         fst (generateAgoraToken b s2 channelName userId)"
  using assms by (simp add: generateAgoraToken_def Let_def split: option.splits)

section \<open>The claims\<close>

subsection \<open>C1\<close>

text \<open>
  C1, as amended. The claim is that every call resolving a room for a session, through
  \<open>createMeetingRoom\<close> or \<open>getMeetingRoom\<close>, returns the same channel id whatever the
  call time. What holds: the room id of \<open>getMeetingRoom\<close> is \<open>room_<sessionId>\<close>, the
  same for every caller, clock and table; the room id of \<open>createMeetingRoom\<close> is
  \<open>room_<sessionId>_<Date.now()>\<close>, so two of its calls for one session agree exactly
  when they read the same clock value, and it never equals the id of \<open>getMeetingRoom\<close>.
\<close>

theorem room_id_derivation:
  "(fst (getMeetingRoom s1 sessionId) = Inr r1 \<and> fst (getMeetingRoom s2 sessionId) = Inr r2
      \<longrightarrow> ri_roomId r1 = ''room_'' @ sessionId \<and> ri_roomId r1 = ri_roomId r2)
   \<and> (fst (createMeetingRoom s1 sessionId) = Inr m1 \<and> fst (createMeetingRoom s2 sessionId) = Inr m2
      \<longrightarrow> md_roomId m1 = ''room_'' @ sessionId @ ''_'' @ number_toString (date_now s1)
          \<and> (md_roomId m1 = md_roomId m2) = (date_now s1 = date_now s2))
   \<and> (fst (createMeetingRoom s1 sessionId) = Inr m1 \<and> fst (getMeetingRoom s2 sessionId) = Inr r2
      \<longrightarrow> md_roomId m1 \<noteq> ri_roomId r2)"
proof (intro conjI impI)
  assume a: "fst (getMeetingRoom s1 sessionId) = Inr r1 \<and> fst (getMeetingRoom s2 sessionId) = Inr r2"
  from a have 1: "ri_roomId r1 = ''room_'' @ sessionId"
    by (elim conjE getMeetingRoom_success)
  from a have 2: "ri_roomId r2 = ''room_'' @ sessionId"
    by (elim conjE getMeetingRoom_success)
  from 1 show "ri_roomId r1 = ''room_'' @ sessionId" .
  from 1 2 show "ri_roomId r1 = ri_roomId r2" by simp
next
  assume a: "fst (createMeetingRoom s1 sessionId) = Inr m1
    \<and> fst (createMeetingRoom s2 sessionId) = Inr m2"
  from a have 1: "md_roomId m1 = ''room_'' @ sessionId @ ''_'' @ number_toString (date_now s1)"
    by (elim conjE createMeetingRoom_success)
  from a have 2: "md_roomId m2 = ''room_'' @ sessionId @ ''_'' @ number_toString (date_now s2)"
    by (elim conjE createMeetingRoom_success)
  from 1 show "md_roomId m1 = ''room_'' @ sessionId @ ''_'' @ number_toString (date_now s1)" .
  from 1 2 show "(md_roomId m1 = md_roomId m2) = (date_now s1 = date_now s2)"
    by (auto dest: number_toString_inj)
next
  assume a: "fst (createMeetingRoom s1 sessionId) = Inr m1
    \<and> fst (getMeetingRoom s2 sessionId) = Inr r2"
  from a have 1: "md_roomId m1 = ''room_'' @ sessionId @ ''_'' @ number_toString (date_now s1)"
    by (elim conjE createMeetingRoom_success)
  from a have 2: "ri_roomId r2 = ''room_'' @ sessionId"
    by (elim conjE getMeetingRoom_success)
  from 1 2 show "md_roomId m1 \<noteq> ri_roomId r2" by simp
qed

theorem room_id_derivation_witness:
  "fst (getMeetingRoom (server_S1 session_S1 (Some ''T'') 1000) ''S1'') =
     Inr (roomInfo_S1 True False)
   \<and> fst (getMeetingRoom (server_S1 session_S1 (Some ''L'') 2000) ''S1'') =
     Inr (roomInfo_S1 False True)
   \<and> fst (createMeetingRoom (server_S1 session_S1 (Some ''T'') 1000) ''S1'') =
     Inr (meetingData_S1 ''room_S1_1000'')
   \<and> fst (createMeetingRoom (server_S1 session_S1 (Some ''L'') 2000) ''S1'') =
     Inr (meetingData_S1 ''room_S1_2000'')
   \<and> ri_roomId (roomInfo_S1 True False) = ri_roomId (roomInfo_S1 False True)
   \<and> (md_roomId (meetingData_S1 ''room_S1_1000'') = md_roomId (meetingData_S1 ''room_S1_2000''))
       = (date_now (server_S1 session_S1 (Some ''T'') 1000)
           = date_now (server_S1 session_S1 (Some ''L'') 2000))
   \<and> md_roomId (meetingData_S1 ''room_S1_1000'') \<noteq> ri_roomId (roomInfo_S1 False True)"
proof -
  have g1: "fst (getMeetingRoom (server_S1 session_S1 (Some ''T'') 1000) ''S1'') =
     Inr (roomInfo_S1 True False)"
    by (simp add: getMeetingRoom_def server_S1_def session_S1_def or_default_def roomInfo_S1_def)
  have g2: "fst (getMeetingRoom (server_S1 session_S1 (Some ''L'') 2000) ''S1'') =
     Inr (roomInfo_S1 False True)"
    by (simp add: getMeetingRoom_def server_S1_def session_S1_def or_default_def roomInfo_S1_def)
  have c1: "fst (createMeetingRoom (server_S1 session_S1 (Some ''T'') 1000) ''S1'') =
     Inr (meetingData_S1 ''room_S1_1000'')"
    by (simp add: createMeetingRoom_def server_S1_def session_S1_def meetingData_S1_def
        number_toString_def digits_of_nat.simps digit_char_def)
  have c2: "fst (createMeetingRoom (server_S1 session_S1 (Some ''L'') 2000) ''S1'') =
     Inr (meetingData_S1 ''room_S1_2000'')"
    by (simp add: createMeetingRoom_def server_S1_def session_S1_def meetingData_S1_def
        number_toString_def digits_of_nat.simps digit_char_def)
  from g1 g2 c1 c2
    room_id_derivation [of "server_S1 session_S1 (Some ''T'') 1000" "''S1''"
      "roomInfo_S1 True False" "server_S1 session_S1 (Some ''L'') 2000" "roomInfo_S1 False True"
      "meetingData_S1 ''room_S1_1000''" "meetingData_S1 ''room_S1_2000''"]
  show ?thesis by blast
qed

text \<open>
  C1 as stated fails: for \<open>S1\<close>, \<open>createMeetingRoom\<close> at time 1000 and at time 2000
  return different room ids, and neither is the id \<open>getMeetingRoom\<close> returns.
\<close>

theorem room_id_counterexample:
  "fst (createMeetingRoom (server_S1 session_S1 (Some ''T'') 1000) ''S1'') =
     Inr (meetingData_S1 ''room_S1_1000'')
   \<and> fst (createMeetingRoom (server_S1 session_S1 (Some ''L'') 2000) ''S1'') =
     Inr (meetingData_S1 ''room_S1_2000'')
   \<and> fst (getMeetingRoom (server_S1 session_S1 (Some ''L'') 2000) ''S1'') =
     Inr (roomInfo_S1 False True)
   \<and> md_roomId (meetingData_S1 ''room_S1_1000'') \<noteq> md_roomId (meetingData_S1 ''room_S1_2000'')
   \<and> md_roomId (meetingData_S1 ''room_S1_2000'') \<noteq> ri_roomId (roomInfo_S1 False True)"
  by (simp add: createMeetingRoom_def getMeetingRoom_def server_S1_def session_S1_def
      meetingData_S1_def roomInfo_S1_def or_default_def number_toString_def
      digits_of_nat.simps digit_char_def)

subsection \<open>C2\<close>

text \<open>
  C2, as amended. The claim is that a join of a completed session fails with
  \<open>SessionEnded\<close> and changes nothing. The action has no such error and does not read
  the current status: for a completed session, \<open>updateSessionStatus\<close> with target
  \<open>in_progress\<close> by either party returns success, sets the status to \<open>in_progress\<close>
  and \<open>actualStartTime\<close> to the call time, and leaves every other field as it was.
\<close>

theorem join_on_completed_succeeds:
  assumes "auth_user_id s = Some uid" and "uid \<noteq> []"
    and "prisma_liveSession s sessionId = Some liveSession"
    and "is_party uid liveSession"
    and "status liveSession = Completed"
  shows "updateSessionStatus s sessionId T_in_progress =
     (Inr \<lparr>success = True\<rparr>,
      s\<lparr>prisma_liveSession := (prisma_liveSession s)(sessionId \<mapsto>
          liveSession\<lparr>status := In_progress, actualStartTime := Some (date_now s)\<rparr>)\<rparr>)"
  using updateSessionStatus_party [OF assms(1-4), of T_in_progress] by simp

theorem join_on_completed_succeeds_witness:
  "auth_user_id (server_S1 session_S1_completed (Some ''T'') 30) = Some ''T''
   \<and> ''T'' \<noteq> []
   \<and> prisma_liveSession (server_S1 session_S1_completed (Some ''T'') 30) ''S1'' =
       Some session_S1_completed
   \<and> is_party ''T'' session_S1_completed
   \<and> status session_S1_completed = Completed
   \<and> updateSessionStatus (server_S1 session_S1_completed (Some ''T'') 30) ''S1''
       T_in_progress =
     (Inr \<lparr>success = True\<rparr>,
      server_S1 (session_S1\<lparr>status := In_progress, actualStartTime := Some 30,
        actualEndTime := Some 20\<rparr>) (Some ''T'') 30)"
  using join_on_completed_succeeds [of "server_S1 session_S1_completed (Some ''T'') 30"
      "''T''" "''S1''" session_S1_completed]
  by (simp add: server_S1_def session_S1_completed_def session_S1_def is_party_def)

text \<open>
  C2 as stated fails: \<open>S1\<close> is completed, with start time 10 and end time 20; the join
  of \<open>T\<close> at time 30 returns success, and the row is \<open>in_progress\<close> with start time 30.
\<close>

theorem join_on_completed_counterexample:
  "fst (updateSessionStatus (server_S1 session_S1_completed (Some ''T'') 30) ''S1''
       T_in_progress) = Inr \<lparr>success = True\<rparr>
   \<and> map_option status (prisma_liveSession (server_S1 session_S1_completed (Some ''T'') 30)
       ''S1'') = Some Completed
   \<and> map_option status (prisma_liveSession
       (snd (updateSessionStatus (server_S1 session_S1_completed (Some ''T'') 30) ''S1''
          T_in_progress)) ''S1'') = Some In_progress
   \<and> map_option actualStartTime (prisma_liveSession
       (snd (updateSessionStatus (server_S1 session_S1_completed (Some ''T'') 30) ''S1''
          T_in_progress)) ''S1'') = Some (Some 30)"
  by (simp add: updateSessionStatus_def server_S1_def session_S1_completed_def session_S1_def)

subsection \<open>C3\<close>

text \<open>
  C3, as amended. The claim is that the actual-start timestamp is written at most once
  and that a second join leaves it unchanged. What holds: the first join of a scheduled
  session by a party succeeds, sets the status to \<open>in_progress\<close> and \<open>actualStartTime\<close>
  to its call time \<open>t1\<close>; a second join by a party succeeds too and keeps the status, but
  writes \<open>actualStartTime\<close> again, to its own call time \<open>t2\<close>; nothing else changes.
\<close>

theorem join_twice_start_time:
  assumes "prisma_liveSession s sessionId = Some liveSession"
    and "status liveSession = Scheduled"
    and "u1 \<noteq> []" and "is_party u1 liveSession"
    and "u2 \<noteq> []" and "is_party u2 liveSession"
  shows "let first = updateSessionStatus (request_ctx s (Some u1) t1) sessionId T_in_progress;
             second = updateSessionStatus (request_ctx (snd first) (Some u2) t2) sessionId
                        T_in_progress
         in fst first = Inr \<lparr>success = True\<rparr>
          \<and> prisma_liveSession (snd first) sessionId =
              Some (liveSession\<lparr>status := In_progress, actualStartTime := Some t1\<rparr>)
          \<and> fst second = Inr \<lparr>success = True\<rparr>
          \<and> prisma_liveSession (snd second) sessionId =
              Some (liveSession\<lparr>status := In_progress, actualStartTime := Some t2\<rparr>)"
proof -
  let ?first = "updateSessionStatus (request_ctx s (Some u1) t1) sessionId T_in_progress"
  let ?row1 = "liveSession\<lparr>status := In_progress, actualStartTime := Some t1\<rparr>"
  note one = updateSessionStatus_request [OF assms(1) assms(3) assms(4), of t1 T_in_progress]
  from one(2) have row1: "prisma_liveSession (snd ?first) sessionId = Some ?row1" by simp
  have "is_party u2 ?row1" using assms(6) by (simp add: is_party_def)
  note two = updateSessionStatus_request [OF row1 assms(5) this, of t2 T_in_progress]
  from one(1) row1 two show ?thesis by (simp add: Let_def)
qed

theorem join_twice_start_time_witness:
  "(let first = updateSessionStatus (request_ctx (server_S1 session_S1 None 0) (Some ''T'') 100)
                  ''S1'' T_in_progress;
        second = updateSessionStatus (request_ctx (snd first) (Some ''L'') 200) ''S1''
                   T_in_progress
    in fst first = Inr \<lparr>success = True\<rparr>
     \<and> prisma_liveSession (snd first) ''S1'' =
         Some (session_S1\<lparr>status := In_progress, actualStartTime := Some 100\<rparr>)
     \<and> fst second = Inr \<lparr>success = True\<rparr>
     \<and> prisma_liveSession (snd second) ''S1'' =
         Some (session_S1\<lparr>status := In_progress, actualStartTime := Some 200\<rparr>))
   \<and> prisma_liveSession (server_S1 session_S1 None 0) ''S1'' = Some session_S1
   \<and> status session_S1 = Scheduled
   \<and> is_party ''T'' session_S1 \<and> is_party ''L'' session_S1"
  using join_twice_start_time [of "server_S1 session_S1 None 0" "''S1''" session_S1
      "''T''" "''L''" 100 200]
  by (simp add: server_S1_def session_S1_def is_party_def)

text \<open>
  C3 as stated fails: \<open>T\<close> joins \<open>S1\<close> at time 100 and \<open>L\<close> at time 200; the start
  time is 100 after the first join and 200 after the second.
\<close>

theorem join_twice_start_time_counterexample:
  "map_option actualStartTime (prisma_liveSession
      (updateSessionStatus_seq [join_S1 ''T'' 100] (server_S1 session_S1 None 0)) ''S1'') =
     Some (Some 100)
   \<and> map_option actualStartTime (prisma_liveSession
      (updateSessionStatus_seq [join_S1 ''T'' 100, join_S1 ''L'' 200]
         (server_S1 session_S1 None 0)) ''S1'') =
     Some (Some 200)"
  by (simp add: updateSessionStatus_def request_ctx_def join_S1_def server_S1_def session_S1_def)

subsection \<open>C4\<close>

text \<open>
  C4, as amended. The claim is that the status only moves forward along
  \<open>scheduled\<close>, \<open>in_progress\<close>, \<open>completed\<close>. What holds: a successful
  \<open>updateSessionStatus\<close> sets the status to its target whatever the status was, a failed
  one leaves the server as it was, and so a session that is \<open>in_progress\<close> or
  \<open>completed\<close> stays in one of these two states under every sequence of requests: it
  never returns to \<open>scheduled\<close>, but it can go from \<open>completed\<close> back to \<open>in_progress\<close>.
\<close>

theorem status_never_back_to_scheduled:
  "(fst (updateSessionStatus s sessionId target) = Inr r \<longrightarrow>
      map_option status (prisma_liveSession (snd (updateSessionStatus s sessionId target))
        sessionId) = Some (status_of_target target))
   \<and> (fst (updateSessionStatus s sessionId target) = Inl e \<longrightarrow>
      snd (updateSessionStatus s sessionId target) = s)
   \<and> (map_option status (prisma_liveSession s sessionId) \<in> {Some In_progress, Some Completed}
      \<longrightarrow> map_option status (prisma_liveSession (updateSessionStatus_seq rs s) sessionId)
            \<in> {Some In_progress, Some Completed})"
proof (intro conjI impI)
  assume "fst (updateSessionStatus s sessionId target) = Inr r"
  then show "map_option status (prisma_liveSession (snd (updateSessionStatus s sessionId target))
        sessionId) = Some (status_of_target target)"
    by (simp add: updateSessionStatus_status)
next
  assume "fst (updateSessionStatus s sessionId target) = Inl e"
  then show "snd (updateSessionStatus s sessionId target) = s"
    by (rule updateSessionStatus_failure)
next
  assume "map_option status (prisma_liveSession s sessionId) \<in> {Some In_progress, Some Completed}"
  then show "map_option status (prisma_liveSession (updateSessionStatus_seq rs s) sessionId)
            \<in> {Some In_progress, Some Completed}"
    by (rule updateSessionStatus_seq_status)
qed

theorem status_never_back_to_scheduled_witness:
  "fst (updateSessionStatus (server_S1 session_S1 (Some ''T'') 100) ''S1'' T_in_progress) =
     Inr \<lparr>success = True\<rparr>
   \<and> map_option status (prisma_liveSession
       (snd (updateSessionStatus (server_S1 session_S1 (Some ''T'') 100) ''S1'' T_in_progress))
       ''S1'') = Some In_progress
   \<and> fst (updateSessionStatus (server_S1 session_S1 (Some ''X'') 100) ''S1'' T_completed) =
     Inl Forbidden
   \<and> snd (updateSessionStatus (server_S1 session_S1 (Some ''X'') 100) ''S1'' T_completed) =
     server_S1 session_S1 (Some ''X'') 100
   \<and> map_option status (prisma_liveSession (server_S1 session_S1_completed None 0) ''S1'')
       \<in> {Some In_progress, Some Completed}
   \<and> map_option status (prisma_liveSession
       (updateSessionStatus_seq [join_S1 ''T'' 500, end_S1 ''X'' 600, join_S1 ''L'' 700]
          (server_S1 session_S1_completed None 0)) ''S1'')
       \<in> {Some In_progress, Some Completed}"
proof -
  have a: "fst (updateSessionStatus (server_S1 session_S1 (Some ''T'') 100) ''S1''
      T_in_progress) = Inr \<lparr>success = True\<rparr>"
    by (simp add: updateSessionStatus_def server_S1_def session_S1_def)
  have b: "fst (updateSessionStatus (server_S1 session_S1 (Some ''X'') 100) ''S1''
      T_completed) = Inl Forbidden"
    by (simp add: updateSessionStatus_def server_S1_def session_S1_def)
  have c: "map_option status (prisma_liveSession (server_S1 session_S1_completed None 0) ''S1'')
       \<in> {Some In_progress, Some Completed}"
    by (simp add: server_S1_def session_S1_completed_def)
  from a b c
    status_never_back_to_scheduled [of "server_S1 session_S1 (Some ''T'') 100" "''S1''"
      T_in_progress "\<lparr>success = True\<rparr>"]
    status_never_back_to_scheduled [of "server_S1 session_S1 (Some ''X'') 100" "''S1''"
      T_completed _ Forbidden]
    status_never_back_to_scheduled [of "server_S1 session_S1_completed None 0" "''S1''" _ _ _
      "[join_S1 ''T'' 500, end_S1 ''X'' 600, join_S1 ''L'' 700]"]
  show ?thesis by simp
qed

text \<open>
  C4 as stated fails: after a join and an end \<open>S1\<close> is \<open>completed\<close>, and one more join
  moves it back to \<open>in_progress\<close>.
\<close>

theorem status_backward_counterexample:
  "map_option status (prisma_liveSession
      (updateSessionStatus_seq [join_S1 ''T'' 100, end_S1 ''L'' 300]
         (server_S1 session_S1 None 0)) ''S1'') = Some Completed
   \<and> map_option status (prisma_liveSession
      (updateSessionStatus_seq [join_S1 ''T'' 100, end_S1 ''L'' 300, join_S1 ''T'' 500]
         (server_S1 session_S1 None 0)) ''S1'') = Some In_progress"
  by (simp add: updateSessionStatus_def request_ctx_def join_S1_def end_S1_def server_S1_def
      session_S1_def)

subsection \<open>C5\<close>

text \<open>
  C5, as amended. The claim ends with: on success the operation returns which of the two
  roles the caller occupies. That holds for \<open>getMeetingRoom\<close> only. What holds: for an
  authenticated caller who is neither the teacher's user nor the student of the session,
  a join, an end and a room-info request all fail, with \<open>NotFound\<close> when the session
  does not exist and \<open>Forbidden\<close> otherwise, and leave the server (so the session row) as
  it was. On success \<open>getMeetingRoom\<close> returns the role the guard found, as \<open>isTeacher\<close>
  and \<open>isStudent\<close>: each flag says whether the caller is that party, and one of them is
  true. A join or an end succeeds only for a party of an existing session, and returns
  \<open>success\<close> alone, the same value for the teacher and for the student.
\<close>

theorem non_party_rejected:
  assumes "auth_user_id s = Some uid" and "uid \<noteq> []"
  shows "((\<forall>liveSession. prisma_liveSession s sessionId = Some liveSession \<longrightarrow>
             \<not> is_party uid liveSession) \<longrightarrow>
            updateSessionStatus s sessionId T_in_progress =
              (Inl (if prisma_liveSession s sessionId = None then NotFound else Forbidden), s)
          \<and> updateSessionStatus s sessionId T_completed =
              (Inl (if prisma_liveSession s sessionId = None then NotFound else Forbidden), s)
          \<and> getMeetingRoom s sessionId =
              (Inl (if prisma_liveSession s sessionId = None then NotFound else Forbidden), s))
       \<and> (fst (getMeetingRoom s sessionId) = Inr r \<longrightarrow>
            (\<exists>liveSession. prisma_liveSession s sessionId = Some liveSession
               \<and> ri_isTeacher r = (teacher_userId liveSession = uid)
               \<and> ri_isStudent r = (studentId liveSession = Some uid)
               \<and> (ri_isTeacher r \<or> ri_isStudent r)))
       \<and> (fst (updateSessionStatus s sessionId target) = Inr u \<longrightarrow>
            u = \<lparr>success = True\<rparr>
            \<and> (\<exists>liveSession. prisma_liveSession s sessionId = Some liveSession
                 \<and> is_party uid liveSession))"
proof (intro conjI impI)
  assume "fst (updateSessionStatus s sessionId target) = Inr u"
  then show "u = \<lparr>success = True\<rparr>"
    by (auto simp: updateSessionStatus_def Let_def split: option.splits if_splits)
next
  assume "fst (updateSessionStatus s sessionId target) = Inr u"
  then show "\<exists>liveSession. prisma_liveSession s sessionId = Some liveSession
                 \<and> is_party uid liveSession"
    using assms(1)
    by (auto simp: updateSessionStatus_def is_party_def Let_def split: option.splits if_splits)
next
  assume "fst (getMeetingRoom s sessionId) = Inr r"
  then show "\<exists>liveSession. prisma_liveSession s sessionId = Some liveSession
               \<and> ri_isTeacher r = (teacher_userId liveSession = uid)
               \<and> ri_isStudent r = (studentId liveSession = Some uid)
               \<and> (ri_isTeacher r \<or> ri_isStudent r)"
    using assms(1) by (elim getMeetingRoom_success) (auto simp: is_party_def)
qed (rule guard_rejects [OF assms], assumption)+

theorem non_party_rejected_witness:
  "updateSessionStatus (server_S1 session_S1 (Some ''X'') 50) ''S1'' T_in_progress =
     (Inl Forbidden, server_S1 session_S1 (Some ''X'') 50)
   \<and> updateSessionStatus (server_S1 session_S1 (Some ''X'') 50) ''S1'' T_completed =
     (Inl Forbidden, server_S1 session_S1 (Some ''X'') 50)
   \<and> getMeetingRoom (server_S1 session_S1 (Some ''X'') 50) ''S1'' =
     (Inl Forbidden, server_S1 session_S1 (Some ''X'') 50)
   \<and> updateSessionStatus (server_S1 session_S1 (Some ''X'') 50) ''S2'' T_in_progress =
     (Inl NotFound, server_S1 session_S1 (Some ''X'') 50)
   \<and> updateSessionStatus (server_S1 session_S1 (Some ''X'') 50) ''S2'' T_completed =
     (Inl NotFound, server_S1 session_S1 (Some ''X'') 50)
   \<and> fst (getMeetingRoom (server_S1 session_S1 (Some ''T'') 50) ''S1'') =
       Inr (roomInfo_S1 True False)
   \<and> ri_isTeacher (roomInfo_S1 True False) = (teacher_userId session_S1 = ''T'')
   \<and> ri_isStudent (roomInfo_S1 True False) = (studentId session_S1 = Some ''T'')
   \<and> fst (updateSessionStatus (server_S1 session_S1 (Some ''T'') 50) ''S1'' T_completed) =
       Inr \<lparr>success = True\<rparr>
   \<and> is_party ''T'' session_S1"
proof -
  have u: "fst (updateSessionStatus (server_S1 session_S1 (Some ''T'') 50) ''S1'' T_completed) =
       Inr \<lparr>success = True\<rparr>"
    by (simp add: updateSessionStatus_def server_S1_def session_S1_def)
  have x: "auth_user_id (server_S1 session_S1 (Some ''X'') 50) = Some ''X''" "''X'' \<noteq> []"
    by (simp_all add: server_S1_def)
  have t: "auth_user_id (server_S1 session_S1 (Some ''T'') 50) = Some ''T''" "''T'' \<noteq> []"
    by (simp_all add: server_S1_def)
  have g: "fst (getMeetingRoom (server_S1 session_S1 (Some ''T'') 50) ''S1'') =
       Inr (roomInfo_S1 True False)"
    by (simp add: getMeetingRoom_def server_S1_def session_S1_def or_default_def roomInfo_S1_def)
  have r: "prisma_liveSession (server_S1 session_S1 (Some ''X'') 50) ''S1'' = Some session_S1"
      "prisma_liveSession (server_S1 session_S1 (Some ''X'') 50) ''S2'' = None"
      "prisma_liveSession (server_S1 session_S1 (Some ''T'') 50) ''S1'' = Some session_S1"
      "\<not> is_party ''X'' session_S1"
    by (simp_all add: server_S1_def session_S1_def is_party_def)
  from non_party_rejected [OF x, of "''S1''"] non_party_rejected [OF x, of "''S2''"]
    non_party_rejected [OF t, of "''S1''" "roomInfo_S1 True False" T_completed
      "\<lparr>success = True\<rparr>"] g r u
  show ?thesis by simp
qed

text \<open>
  C5 as stated fails in its last clause: the join and the end of \<open>S1\<close> return the same
  value for the tutor \<open>T\<close> and for the learner \<open>L\<close>, so the result does not tell the role.
\<close>

theorem join_end_return_no_role_counterexample:
  "fst (updateSessionStatus (server_S1 session_S1 (Some ''T'') 50) ''S1'' T_in_progress) =
     Inr \<lparr>success = True\<rparr>
   \<and> fst (updateSessionStatus (server_S1 session_S1 (Some ''L'') 50) ''S1'' T_in_progress) =
     Inr \<lparr>success = True\<rparr>
   \<and> fst (updateSessionStatus (server_S1 session_S1 (Some ''T'') 50) ''S1'' T_completed) =
     Inr \<lparr>success = True\<rparr>
   \<and> fst (updateSessionStatus (server_S1 session_S1 (Some ''L'') 50) ''S1'' T_completed) =
     Inr \<lparr>success = True\<rparr>"
  by (simp add: updateSessionStatus_def server_S1_def session_S1_def)

subsection \<open>C6\<close>

text \<open>
  C6, as amended. The claim is that a credential is returned whenever the signing
  configuration is present. The signer can throw, and then the action fails. What holds:
  \<open>generateAgoraToken\<close> does no authentication, authorization or session lookup: two
  servers with the same environment and clock, whatever their session tables and
  authenticated users, give the same outcome for every channel name and user id; the
  server is left as it was; and when the app id and certificate are set, the outcome is
  the credential made of the signer's token when the signer returns one, and the
  initialisation error when the dynamic import or the signer throws.
\<close>

theorem generateAgoraToken_no_session_lookup:
  assumes "process_env s1 = process_env s2" and "date_now s1 = date_now s2"
  shows "fst (generateAgoraToken b s1 channelName userId) =
           fst (generateAgoraToken b s2 channelName userId)
       \<and> snd (generateAgoraToken b s1 channelName userId) = s1
       \<and> snd (generateAgoraToken b s2 channelName userId) = s2
       \<and> (NEXT_PUBLIC_AGORA_APP_ID (process_env s1) = Some appId \<and> appId \<noteq> []
          \<and> AGORA_APP_CERTIFICATE (process_env s1) = Some appCertificate \<and> appCertificate \<noteq> []
          \<and> b appId appCertificate channelName userId PUBLISHER (date_now s1 div 1000 + 3600) =
              Some token \<longrightarrow>
          fst (generateAgoraToken b s1 channelName userId) =
            Inr \<lparr>at_token = token, at_channelName = channelName, at_userId = userId,
                 at_appId = appId\<rparr>)
       \<and> (NEXT_PUBLIC_AGORA_APP_ID (process_env s1) = Some appId \<and> appId \<noteq> []
          \<and> AGORA_APP_CERTIFICATE (process_env s1) = Some appCertificate \<and> appCertificate \<noteq> []
          \<and> b appId appCertificate channelName userId PUBLISHER (date_now s1 div 1000 + 3600) =
              None \<longrightarrow>
          fst (generateAgoraToken b s1 channelName userId) = Inl InitializationError)"
proof (intro conjI impI)
  show "fst (generateAgoraToken b s1 channelName userId) =
           fst (generateAgoraToken b s2 channelName userId)"
    using assms by (rule generateAgoraToken_reads)
next
  assume "NEXT_PUBLIC_AGORA_APP_ID (process_env s1) = Some appId \<and> appId \<noteq> []
          \<and> AGORA_APP_CERTIFICATE (process_env s1) = Some appCertificate \<and> appCertificate \<noteq> []
          \<and> b appId appCertificate channelName userId PUBLISHER (date_now s1 div 1000 + 3600) =
              None"
  then show "fst (generateAgoraToken b s1 channelName userId) = Inl InitializationError"
    using generateAgoraToken_configured [of s1 appId appCertificate b channelName userId] by simp
next
  assume "NEXT_PUBLIC_AGORA_APP_ID (process_env s1) = Some appId \<and> appId \<noteq> []
          \<and> AGORA_APP_CERTIFICATE (process_env s1) = Some appCertificate \<and> appCertificate \<noteq> []
          \<and> b appId appCertificate channelName userId PUBLISHER (date_now s1 div 1000 + 3600) =
              Some token"
  then show "fst (generateAgoraToken b s1 channelName userId) =
            Inr \<lparr>at_token = token, at_channelName = channelName, at_userId = userId,
                 at_appId = appId\<rparr>"
    using generateAgoraToken_configured [of s1 appId appCertificate b channelName userId] by simp
qed (rule generateAgoraToken_server)+

theorem generateAgoraToken_no_session_lookup_witness:
  "process_env (server_S1 session_S1 (Some ''T'') 5000) =
     process_env (server_S1 session_S1_completed None 5000
       \<lparr>prisma_liveSession := Map.empty\<rparr>)
   \<and> date_now (server_S1 session_S1 (Some ''T'') 5000) =
     date_now (server_S1 session_S1_completed None 5000\<lparr>prisma_liveSession := Map.empty\<rparr>)
   \<and> fst (generateAgoraToken plain_builder (server_S1 session_S1 (Some ''T'') 5000)
        ''room_S9'' ''X'') =
     Inr \<lparr>at_token = ''app/room_S9/X/3605'', at_channelName = ''room_S9'', at_userId = ''X'',
          at_appId = ''app''\<rparr>
   \<and> fst (generateAgoraToken plain_builder
        (server_S1 session_S1_completed None 5000\<lparr>prisma_liveSession := Map.empty\<rparr>)
        ''room_S9'' ''X'') =
     Inr \<lparr>at_token = ''app/room_S9/X/3605'', at_channelName = ''room_S9'', at_userId = ''X'',
          at_appId = ''app''\<rparr>
   \<and> snd (generateAgoraToken plain_builder (server_S1 session_S1 (Some ''T'') 5000)
        ''room_S9'' ''X'') = server_S1 session_S1 (Some ''T'') 5000
   \<and> fst (generateAgoraToken failing_builder (server_S1 session_S1 (Some ''T'') 5000)
        ''room_S9'' ''X'') = Inl InitializationError"
proof -
  have e: "process_env (server_S1 session_S1 (Some ''T'') 5000) =
     process_env (server_S1 session_S1_completed None 5000
       \<lparr>prisma_liveSession := Map.empty\<rparr>)"
    and d: "date_now (server_S1 session_S1 (Some ''T'') 5000) =
     date_now (server_S1 session_S1_completed None 5000\<lparr>prisma_liveSession := Map.empty\<rparr>)"
    by (simp_all add: server_S1_def)
  have c: "NEXT_PUBLIC_AGORA_APP_ID (process_env (server_S1 session_S1 (Some ''T'') 5000)) =
      Some ''app''"
    "AGORA_APP_CERTIFICATE (process_env (server_S1 session_S1 (Some ''T'') 5000)) = Some ''cert''"
    "date_now (server_S1 session_S1 (Some ''T'') 5000) = 5000"
    by (simp_all add: server_S1_def)
  have v: "plain_builder ''app'' ''cert'' ''room_S9'' ''X'' PUBLISHER (5000 div 1000 + 3600) =
      Some ''app/room_S9/X/3605''"
    by (simp add: plain_builder_def number_toString_def digits_of_nat.simps digit_char_def)
  note th = generateAgoraToken_no_session_lookup [OF e d, of plain_builder "''room_S9''" "''X''"
      "''app''" "''cert''" "''app/room_S9/X/3605''"]
  from c v have "NEXT_PUBLIC_AGORA_APP_ID (process_env (server_S1 session_S1 (Some ''T'') 5000)) =
        Some ''app'' \<and> ''app'' \<noteq> []
      \<and> AGORA_APP_CERTIFICATE (process_env (server_S1 session_S1 (Some ''T'') 5000)) =
        Some ''cert'' \<and> ''cert'' \<noteq> []
      \<and> plain_builder ''app'' ''cert'' ''room_S9'' ''X'' PUBLISHER
          (date_now (server_S1 session_S1 (Some ''T'') 5000) div 1000 + 3600) =
        Some ''app/room_S9/X/3605''"
    by simp
  with th have r: "fst (generateAgoraToken plain_builder
      (server_S1 session_S1 (Some ''T'') 5000) ''room_S9'' ''X'') =
     Inr \<lparr>at_token = ''app/room_S9/X/3605'', at_channelName = ''room_S9'', at_userId = ''X'',
          at_appId = ''app''\<rparr>"
    by blast
  from th r have r': "fst (generateAgoraToken plain_builder
        (server_S1 session_S1_completed None 5000\<lparr>prisma_liveSession := Map.empty\<rparr>)
        ''room_S9'' ''X'') =
     Inr \<lparr>at_token = ''app/room_S9/X/3605'', at_channelName = ''room_S9'', at_userId = ''X'',
          at_appId = ''app''\<rparr>"
    by (elim conjE) (erule subst)
  from th have u: "snd (generateAgoraToken plain_builder (server_S1 session_S1 (Some ''T'') 5000)
        ''room_S9'' ''X'') = server_S1 session_S1 (Some ''T'') 5000"
    by (elim conjE)
  note tf = generateAgoraToken_no_session_lookup [OF e d, of failing_builder "''room_S9''" "''X''"
      "''app''" "''cert''"]
  from c have "NEXT_PUBLIC_AGORA_APP_ID (process_env (server_S1 session_S1 (Some ''T'') 5000)) =
        Some ''app'' \<and> ''app'' \<noteq> []
      \<and> AGORA_APP_CERTIFICATE (process_env (server_S1 session_S1 (Some ''T'') 5000)) =
        Some ''cert'' \<and> ''cert'' \<noteq> []
      \<and> failing_builder ''app'' ''cert'' ''room_S9'' ''X'' PUBLISHER
          (date_now (server_S1 session_S1 (Some ''T'') 5000) div 1000 + 3600) = None"
    by (simp add: failing_builder_def)
  with tf have f: "fst (generateAgoraToken failing_builder
      (server_S1 session_S1 (Some ''T'') 5000) ''room_S9'' ''X'') = Inl InitializationError"
    by blast
  from e d r r' u f show ?thesis by (intro conjI)
qed

text \<open>
  C6 as stated fails: with the app id and the certificate set and a signer that throws,
  no credential is returned; the action fails with the initialisation error.
\<close>

theorem generateAgoraToken_signer_throws_counterexample:
  "NEXT_PUBLIC_AGORA_APP_ID (process_env (server_S1 session_S1 (Some ''T'') 5000)) = Some ''app''
   \<and> AGORA_APP_CERTIFICATE (process_env (server_S1 session_S1 (Some ''T'') 5000)) = Some ''cert''
   \<and> generateAgoraToken failing_builder (server_S1 session_S1 (Some ''T'') 5000)
        ''room_S1'' ''teacher'' =
      (Inl InitializationError, server_S1 session_S1 (Some ''T'') 5000)"
  by (simp add: generateAgoraToken_def falsy_def failing_builder_def server_S1_def)

subsection \<open>C7\<close>

text \<open>
  C7, as amended. The claim is that the second of two ends leaves the actual-end
  timestamp as the first set it. What holds: two ends in succession by parties succeed
  both times and leave the status \<open>completed\<close>, but each writes \<open>actualEndTime\<close>: it is
  the first call's time \<open>t1\<close> after the first and the second call's time \<open>t2\<close> after
  the second; nothing else changes.
\<close>

theorem end_twice_end_time:
  assumes "prisma_liveSession s sessionId = Some liveSession"
    and "u1 \<noteq> []" and "is_party u1 liveSession"
    and "u2 \<noteq> []" and "is_party u2 liveSession"
  shows "let first = updateSessionStatus (request_ctx s (Some u1) t1) sessionId T_completed;
             second = updateSessionStatus (request_ctx (snd first) (Some u2) t2) sessionId
                        T_completed
         in fst first = Inr \<lparr>success = True\<rparr>
          \<and> prisma_liveSession (snd first) sessionId =
              Some (liveSession\<lparr>status := Completed, actualEndTime := Some t1\<rparr>)
          \<and> fst second = Inr \<lparr>success = True\<rparr>
          \<and> prisma_liveSession (snd second) sessionId =
              Some (liveSession\<lparr>status := Completed, actualEndTime := Some t2\<rparr>)"
proof -
  let ?first = "updateSessionStatus (request_ctx s (Some u1) t1) sessionId T_completed"
  let ?row1 = "liveSession\<lparr>status := Completed, actualEndTime := Some t1\<rparr>"
  note one = updateSessionStatus_request [OF assms(1) assms(2) assms(3), of t1 T_completed]
  from one(2) have row1: "prisma_liveSession (snd ?first) sessionId = Some ?row1" by simp
  have "is_party u2 ?row1" using assms(5) by (simp add: is_party_def)
  note two = updateSessionStatus_request [OF row1 assms(4) this, of t2 T_completed]
  from one(1) row1 two show ?thesis by (simp add: Let_def)
qed

theorem end_twice_end_time_witness:
  "(let first = updateSessionStatus
                  (request_ctx (server_S1 (session_S1\<lparr>status := In_progress,
                      actualStartTime := Some 100\<rparr>) None 0) (Some ''L'') 300)
                  ''S1'' T_completed;
        second = updateSessionStatus (request_ctx (snd first) (Some ''T'') 400) ''S1''
                   T_completed
    in fst first = Inr \<lparr>success = True\<rparr>
     \<and> prisma_liveSession (snd first) ''S1'' =
         Some (session_S1\<lparr>status := Completed, actualStartTime := Some 100,
                 actualEndTime := Some 300\<rparr>)
     \<and> fst second = Inr \<lparr>success = True\<rparr>
     \<and> prisma_liveSession (snd second) ''S1'' =
         Some (session_S1\<lparr>status := Completed, actualStartTime := Some 100,
                 actualEndTime := Some 400\<rparr>))
   \<and> is_party ''L'' (session_S1\<lparr>status := In_progress, actualStartTime := Some 100\<rparr>)
   \<and> is_party ''T'' (session_S1\<lparr>status := In_progress, actualStartTime := Some 100\<rparr>)"
  using end_twice_end_time [of
      "server_S1 (session_S1\<lparr>status := In_progress, actualStartTime := Some 100\<rparr>) None 0"
      "''S1''" "session_S1\<lparr>status := In_progress, actualStartTime := Some 100\<rparr>"
      "''L''" "''T''" 300 400]
  by (simp add: server_S1_def session_S1_def is_party_def)

text \<open>
  C7 as stated fails: \<open>L\<close> ends \<open>S1\<close> at time 300 and \<open>T\<close> at time 400; the end time is
  300 after the first end and 400 after the second.
\<close>

theorem end_twice_end_time_counterexample:
  "map_option actualEndTime (prisma_liveSession
      (updateSessionStatus_seq [end_S1 ''L'' 300] (server_S1 session_S1 None 0)) ''S1'') =
     Some (Some 300)
   \<and> map_option actualEndTime (prisma_liveSession
      (updateSessionStatus_seq [end_S1 ''L'' 300, end_S1 ''T'' 400]
         (server_S1 session_S1 None 0)) ''S1'') =
     Some (Some 400)"
  by (simp add: updateSessionStatus_def request_ctx_def end_S1_def server_S1_def session_S1_def)

subsection \<open>C8\<close>

text \<open>
  C8. \<open>generateAgoraToken\<close> fails with the configuration error exactly when the app id
  or the app certificate is unset or empty; in that case, for every channel name, user
  id and signer, it issues no credential and leaves the server as it was.
\<close>

theorem generateAgoraToken_configuration_error:
  "(fst (generateAgoraToken b s channelName userId) = Inl ConfigurationError) =
     (falsy (NEXT_PUBLIC_AGORA_APP_ID (process_env s))
      \<or> falsy (AGORA_APP_CERTIFICATE (process_env s)))
   \<and> (falsy (NEXT_PUBLIC_AGORA_APP_ID (process_env s))
        \<or> falsy (AGORA_APP_CERTIFICATE (process_env s)) \<longrightarrow>
      generateAgoraToken b s channelName userId = (Inl ConfigurationError, s))"
  by (simp add: generateAgoraToken_ConfigurationError generateAgoraToken_unconfigured)

theorem generateAgoraToken_configuration_error_witness:
  "falsy (NEXT_PUBLIC_AGORA_APP_ID (process_env
      (server_S1 session_S1 (Some ''T'') 5000
        \<lparr>process_env := \<lparr>NEXT_PUBLIC_AGORA_APP_ID = Some '''',
                           AGORA_APP_CERTIFICATE = Some ''cert''\<rparr>\<rparr>)))
   \<and> generateAgoraToken plain_builder
       (server_S1 session_S1 (Some ''T'') 5000
         \<lparr>process_env := \<lparr>NEXT_PUBLIC_AGORA_APP_ID = Some '''',
                            AGORA_APP_CERTIFICATE = Some ''cert''\<rparr>\<rparr>) ''room_S1'' ''teacher'' =
     (Inl ConfigurationError,
      server_S1 session_S1 (Some ''T'') 5000
         \<lparr>process_env := \<lparr>NEXT_PUBLIC_AGORA_APP_ID = Some '''',
                            AGORA_APP_CERTIFICATE = Some ''cert''\<rparr>\<rparr>)
   \<and> fst (generateAgoraToken failing_builder (server_S1 session_S1 (Some ''T'') 5000)
        ''room_S1'' ''teacher'') \<noteq> Inl ConfigurationError"
  using generateAgoraToken_configuration_error [of plain_builder
      "server_S1 session_S1 (Some ''T'') 5000
         \<lparr>process_env := \<lparr>NEXT_PUBLIC_AGORA_APP_ID = Some '''',
                            AGORA_APP_CERTIFICATE = Some ''cert''\<rparr>\<rparr>" "''room_S1''" "''teacher''"]
    generateAgoraToken_configuration_error [of failing_builder
      "server_S1 session_S1 (Some ''T'') 5000" "''room_S1''" "''teacher''"]
  by (simp add: falsy_def server_S1_def)

subsection \<open>C9\<close>

text \<open>
  C9. With the signing configuration present, the one token \<open>generateAgoraToken\<close> asks
  the signer for has role publisher and expiry \<open>floor(Date.now() / 1000) + 3600\<close>: 3600
  seconds after the issuance time in whole seconds, which is between 3599.001 and 3600
  seconds after the clock value in milliseconds. The outcome is that token (or the
  initialisation error when the signer throws), and the server is left as it was:
  nothing is stored, so every call mints its credential anew.
\<close>

theorem token_validity_window:
  assumes "NEXT_PUBLIC_AGORA_APP_ID (process_env s) = Some appId" and "appId \<noteq> []"
    and "AGORA_APP_CERTIFICATE (process_env s) = Some appCertificate" and "appCertificate \<noteq> []"
  shows "generateAgoraToken b s channelName userId =
     (case b appId appCertificate channelName userId PUBLISHER (date_now s div 1000 + 3600) of
        None \<Rightarrow> Inl InitializationError
      | Some token \<Rightarrow>
          Inr \<lparr>at_token = token, at_channelName = channelName, at_userId = userId,
               at_appId = appId\<rparr>, s)
   \<and> (date_now s div 1000 + 3600) - date_now s div 1000 = 3600
   \<and> 3599001 \<le> 1000 * (date_now s div 1000 + 3600) - date_now s
   \<and> 1000 * (date_now s div 1000 + 3600) - date_now s \<le> 3600000"
proof (intro conjI)
  show "generateAgoraToken b s channelName userId =
     (case b appId appCertificate channelName userId PUBLISHER (date_now s div 1000 + 3600) of
        None \<Rightarrow> Inl InitializationError
      | Some token \<Rightarrow>
          Inr \<lparr>at_token = token, at_channelName = channelName, at_userId = userId,
               at_appId = appId\<rparr>, s)"
    using generateAgoraToken_configured [OF assms, of b channelName userId]
      generateAgoraToken_server [of b s channelName userId]
    by (metis prod.collapse)
qed presburger+

theorem token_validity_window_witness:
  "generateAgoraToken plain_builder (server_S1 session_S1 (Some ''T'') 1700000000123)
      ''room_S1'' ''teacher'' =
     (Inr \<lparr>at_token = ''app/room_S1/teacher/1700003600'', at_channelName = ''room_S1'',
           at_userId = ''teacher'', at_appId = ''app''\<rparr>,
      server_S1 session_S1 (Some ''T'') 1700000000123)
   \<and> 1000 * (date_now (server_S1 session_S1 (Some ''T'') 1700000000123) div 1000 + 3600)
       - date_now (server_S1 session_S1 (Some ''T'') 1700000000123) = 3599877"
proof -
  have v: "plain_builder ''app'' ''cert'' ''room_S1'' ''teacher'' PUBLISHER
             (1700000000123 div 1000 + 3600) = Some ''app/room_S1/teacher/1700003600''"
    by (simp add: plain_builder_def number_toString_def digits_of_nat.simps digit_char_def)
  from token_validity_window [of "server_S1 session_S1 (Some ''T'') 1700000000123" "''app''"
      "''cert''" plain_builder "''room_S1''" "''teacher''"] v
  show ?thesis by (simp add: server_S1_def)
qed

subsection \<open>C10\<close>

text \<open>
  C10. Whenever \<open>getMeetingRoom\<close> returns, at least one of the returned flags
  \<open>isTeacher\<close>, \<open>isStudent\<close> is true: a result with both flags false is unreachable.
\<close>

theorem getMeetingRoom_flags:
  assumes "fst (getMeetingRoom s sessionId) = Inr r"
  shows "ri_isTeacher r \<or> ri_isStudent r"
  using assms by (rule getMeetingRoom_success) (auto simp: is_party_def)

theorem getMeetingRoom_flags_witness:
  "fst (getMeetingRoom (server_S1 session_S1 (Some ''L'') 5) ''S1'') =
     Inr (roomInfo_S1 False True)
   \<and> (ri_isTeacher (roomInfo_S1 False True) \<or> ri_isStudent (roomInfo_S1 False True))"
proof -
  have h: "fst (getMeetingRoom (server_S1 session_S1 (Some ''L'') 5) ''S1'') =
     Inr (roomInfo_S1 False True)"
    by (simp add: getMeetingRoom_def server_S1_def session_S1_def or_default_def
        roomInfo_S1_def)
  from h getMeetingRoom_flags [OF h] show ?thesis by blast
qed

end
